theory Spec2Isabelle
  imports Main "HOL-Library.Word" "HOL-Library.Char_ord" "HOL-Library.List_Lexorder"
begin

section \<open>Python values used by the scripts\<close>

type_synonym byte = "8 word"
type_synonym bytes = "byte list"

text \<open>
  A raised Python exception: its class name and the text that \<open>str(e)\<close> gives.
  Only subclasses of \<open>Exception\<close> occur (the ones \<open>except Exception\<close> catches).
\<close>

datatype py_exception = PyException (exc_type: string) (exc_str: string)

definition quoted :: "string \<Rightarrow> string" where
  "quoted s = CHR 0x27 # s @ [CHR 0x27]"

definition IndexError :: py_exception where
  "IndexError = PyException ''IndexError'' ''list index out of range''"

definition TypeError_index :: py_exception where
  "TypeError_index =
     PyException ''TypeError'' ''list indices must be integers or slices, not NoneType''"

definition TypeError_add :: "string \<Rightarrow> string \<Rightarrow> py_exception" where
  "TypeError_add a b =
     PyException ''TypeError''
       (''unsupported operand type(s) for +: '' @ quoted a @ '' and '' @ quoted b)"

definition ValueError_unpack :: "nat \<Rightarrow> py_exception" where
  "ValueError_unpack got =
     PyException ''ValueError''
       (if got < 2 then ''not enough values to unpack (expected 2, got 1)''
        else ''too many values to unpack (expected 2)'')"

text \<open>\<open>str(n)\<close> for an integer: decimal digits, a minus sign when negative.\<close>

definition digit_char :: "nat \<Rightarrow> char" where
  "digit_char d = char_of (48 + d)"

function str_nat :: "nat \<Rightarrow> string" where
  "str_nat n = (if n < 10 then [digit_char n] else str_nat (n div 10) @ [digit_char (n mod 10)])"
  by pat_completeness auto
termination
  by (relation "measure id") auto

declare str_nat.simps [simp del]

definition str_int :: "int \<Rightarrow> string" where
  "str_int k = (if k < 0 then CHR ''-'' # str_nat (nat (- k)) else str_nat (nat k))"

text \<open>\<open>s.startswith(p)\<close> and \<open>s.endswith(p)\<close>.\<close>

definition startswith :: "string \<Rightarrow> string \<Rightarrow> bool" where
  "startswith s p = (take (length p) s = p)"

definition endswith :: "string \<Rightarrow> string \<Rightarrow> bool" where
  "endswith s p = (length p \<le> length s \<and> drop (length s - length p) s = p)"

text \<open>\<open>s.split(c)\<close> for a one-character separator: never the empty list.\<close>

fun str_split :: "char \<Rightarrow> string \<Rightarrow> string list" where
  "str_split c [] = [[]]"
| "str_split c (x # xs) =
     (if x = c then [] # str_split c xs
      else (case str_split c xs of [] \<Rightarrow> [[x]] | y # ys \<Rightarrow> (x # y) # ys))"

text \<open>\<open>s.split(c, 1)\<close>: at most one split, at the first occurrence of the separator.\<close>

fun str_split_max1 :: "char \<Rightarrow> string \<Rightarrow> string list" where
  "str_split_max1 c [] = [[]]"
| "str_split_max1 c (x # xs) =
     (if x = c then [[], xs]
      else (case str_split_max1 c xs of [] \<Rightarrow> [[x]] | y # ys \<Rightarrow> (x # y) # ys))"

text \<open>
  \<open>xs[i]\<close> on a list: a negative index counts from the end, an index out of range
  raises IndexError, and \<open>None\<close> as the index raises TypeError.
\<close>

definition list_getitem :: "'a list \<Rightarrow> int option \<Rightarrow> py_exception + 'a" where
  "list_getitem xs idx =
     (case idx of
        None \<Rightarrow> Inl TypeError_index
      | Some i \<Rightarrow>
          if 0 \<le> i \<and> i < int (length xs) then Inr (xs ! nat i)
          else if i < 0 \<and> - int (length xs) \<le> i then Inr (xs ! nat (int (length xs) + i))
          else Inl IndexError)"

text \<open>
  \<open>data[start:end]\<close> on a bytes object: negative bounds count from the end, and both
  bounds are clamped to the length; nothing is raised when they are out of range.
\<close>

definition py_slice :: "'a list \<Rightarrow> int \<Rightarrow> int \<Rightarrow> 'a list" where
  "py_slice xs start end =
     (let n = int (length xs);
          s = (if start < 0 then max 0 (start + n) else min start n);
          e = (if end < 0 then max 0 (end + n) else min end n)
      in take (nat e - nat s) (drop (nat s) xs))"

text \<open>\<open>os.path.join(a, b)\<close> on POSIX paths.\<close>

definition os_path_join :: "string \<Rightarrow> string \<Rightarrow> string" where
  "os_path_join a b =
     (if startswith b ''/'' then b
      else if a = [] \<or> endswith a ''/'' then a @ b
      else a @ ''/'' @ b)"

section \<open>The parsed container (the objects of pygltflib that the extractor reads)\<close>

text \<open>
  An attribute that the code tests with \<open>hasattr\<close> and then reads without testing it
  for \<open>None\<close> is either missing or holds a value (which may itself be \<open>None\<close>).
\<close>

datatype 'a attr = NoAttr | Attr 'a

text \<open>
  \<open>uri\<close>, \<open>bufferView\<close> and \<open>mimeType\<close> of an image: \<open>None\<close> stands for a missing
  attribute as well as for the value \<open>None\<close>, which the code does not tell apart.
\<close>

record gltf_image =
  uri :: "string option"
  bufferView :: "int option"
  mimeType :: "string option"

record gltf_buffer_view =
  buffer :: "int option"
  byteOffset :: "int option attr"
  byteLength :: "int option"

record gltf_buffer =
  buffer_uri :: "string option"

text \<open>
  The container. \<open>binary_blob\<close> is read as an attribute holding the bytes of the
  embedded binary section (or \<open>None\<close>), as the comment in the source says;
  \<open>get_data_from_buffer_uri\<close> is the library's loader of a buffer's own URI, which may
  raise or return \<open>None\<close>.
\<close>

record gltf =
  buffers :: "gltf_buffer list"
  bufferViews :: "gltf_buffer_view list"
  images :: "gltf_image list"
  binary_blob :: "bytes option"
  get_data_from_buffer_uri :: "string \<Rightarrow> py_exception + bytes option"

section \<open>The world the extractor runs in\<close>

text \<open>
  The file system (directories, files with their contents) and the console, one entry
  for each \<open>print\<close> call.
\<close>

record world =
  dirs :: "string set"
  files :: "string \<rightharpoonup> bytes"
  console :: "string list"

text \<open>
  What the run does not control: the library's parser and base64 decoder, and whether the
  operating system refuses to create a directory or to open a file for writing. They are
  the same for every call of a run.
\<close>

record platform =
  GLTF2_load :: "string \<Rightarrow> py_exception + gltf"
  b64decode :: "string \<Rightarrow> py_exception + bytes"
  makedirs_error :: "string \<Rightarrow> py_exception option"
  open_error :: "string \<Rightarrow> py_exception option"

definition print_line :: "string \<Rightarrow> world \<Rightarrow> world" where
  "print_line s w = w\<lparr>console := console w @ [s]\<rparr>"

definition os_path_exists :: "world \<Rightarrow> string \<Rightarrow> bool" where
  "os_path_exists w p = (p \<in> dirs w \<or> p \<in> dom (files w))"

text \<open>\<open>os.makedirs(p)\<close>; only the directory itself is recorded, not its ancestors.\<close>

definition os_makedirs :: "platform \<Rightarrow> string \<Rightarrow> world \<Rightarrow> py_exception + world" where
  "os_makedirs pf p w =
     (case makedirs_error pf p of
        Some x \<Rightarrow> Inl x
      | None \<Rightarrow> Inr (w\<lparr>dirs := insert p (dirs w)\<rparr>))"

text \<open>
  \<open>with open(path, 'wb') as f: f.write(data)\<close>: the file is created or replaced, its
  content is exactly \<open>data\<close>. Opening may be refused; writing bytes held in memory to an
  open file is taken to succeed.
\<close>

definition write_binary :: "platform \<Rightarrow> string \<Rightarrow> bytes \<Rightarrow> world \<Rightarrow> py_exception + world" where
  "write_binary pf path data w =
     (case open_error pf path of
        Some x \<Rightarrow> Inl x
      | None \<Rightarrow> Inr (w\<lparr>files := (files w)(path \<mapsto> data)\<rparr>))"

section \<open>extract\_textures.py\<close>

definition truthy :: "string option \<Rightarrow> bool" where
  "truthy v = (case v of None \<Rightarrow> False | Some s \<Rightarrow> s \<noteq> [])"

definition texture_filename :: "nat \<Rightarrow> string \<Rightarrow> string" where
  "texture_filename i extension = ''texture_'' @ str_nat i @ ''.'' @ extension"

text \<open>Lines 32 to 38: the branch for a \<open>data:\<close> URI.\<close>

definition extract_data_uri ::
  "platform \<Rightarrow> string \<Rightarrow> nat \<Rightarrow> string \<Rightarrow> world \<Rightarrow> py_exception + world" where
  "extract_data_uri pf output_dir i u w =
     (case str_split_max1 CHR '','' u of
        [content_type, b64data] \<Rightarrow>
          (case b64decode pf b64data of
             Inl x \<Rightarrow> Inl x
           | Inr img_data \<Rightarrow>
               (let extension = hd (str_split CHR '';'' (last (str_split CHR ''/'' content_type)));
                    filename = texture_filename i extension
                in case write_binary pf (os_path_join output_dir filename) img_data w of
                     Inl x \<Rightarrow> Inl x
                   | Inr w' \<Rightarrow> Inr (print_line (''Extracted '' @ filename @ '' from data URI'') w')))
      | parts \<Rightarrow> Inl (ValueError_unpack (length parts)))"

text \<open>Lines 65 to 72: the extension chosen from the MIME type.\<close>

definition mime_extension :: "string option \<Rightarrow> string" where
  "mime_extension m =
     (case m of
        None \<Rightarrow> ''bin''
      | Some t \<Rightarrow>
          if t = ''image/jpeg'' then ''jpg''
          else if t = ''image/png'' then ''png''
          else if t = ''image/webp'' then ''webp''
          else ''bin'')"

text \<open>Line 52: the bytes of a buffer, from its own URI or from the embedded section.\<close>

definition buffer_bytes :: "gltf \<Rightarrow> gltf_buffer \<Rightarrow> py_exception + bytes option" where
  "buffer_bytes g b =
     (if truthy (buffer_uri b) then get_data_from_buffer_uri g (the (buffer_uri b))
      else Inr (binary_blob g))"

text \<open>Lines 59 to 61: \<open>start\<close> and \<open>end\<close>; adding \<open>None\<close> raises TypeError.\<close>

definition view_range :: "gltf_buffer_view \<Rightarrow> py_exception + int \<times> int" where
  "view_range bv =
     (let start = (case byteOffset bv of NoAttr \<Rightarrow> Some 0 | Attr v \<Rightarrow> v);
          len = byteLength bv
      in case (start, len) of
           (Some s, Some l) \<Rightarrow> Inr (s, s + l)
         | (Some s, None) \<Rightarrow> Inl (TypeError_add ''int'' ''NoneType'')
         | (None, Some l) \<Rightarrow> Inl (TypeError_add ''NoneType'' ''int'')
         | (None, None) \<Rightarrow> Inl (TypeError_add ''NoneType'' ''NoneType''))"

text \<open>Lines 47 to 78: the branch for a buffer view \<open>k\<close>.\<close>

definition extract_buffer_view ::
  "platform \<Rightarrow> gltf \<Rightarrow> string \<Rightarrow> nat \<Rightarrow> gltf_image \<Rightarrow> int \<Rightarrow> world \<Rightarrow> py_exception + world" where
  "extract_buffer_view pf g output_dir i img k w =
     (case list_getitem (bufferViews g) (Some k) of
        Inl x \<Rightarrow> Inl x
      | Inr buffer_view \<Rightarrow>
     (case list_getitem (buffers g) (buffer buffer_view) of
        Inl x \<Rightarrow> Inl x
      | Inr b \<Rightarrow>
     (case buffer_bytes g b of
        Inl x \<Rightarrow> Inl x
      | Inr None \<Rightarrow>
          Inr (print_line (''Could not get binary data for image '' @ str_nat i) w)
      | Inr (Some buffer_data) \<Rightarrow>
     (case view_range buffer_view of
        Inl x \<Rightarrow> Inl x
      | Inr (start, end) \<Rightarrow>
          (let img_data = py_slice buffer_data start end;
               extension = mime_extension (mimeType img);
               filename = texture_filename i extension
           in case write_binary pf (os_path_join output_dir filename) img_data w of
                Inl x \<Rightarrow> Inl x
              | Inr w' \<Rightarrow>
                  Inr (print_line
                        (''Extracted '' @ filename @ '' from buffer view '' @ str_int k) w'))))))"

text \<open>
  Lines 28 to 78: the body of the \<open>try\<close> for image \<open>i\<close>. \<open>Inl\<close> is an exception
  leaving the body; no effect on the world precedes any raise.
\<close>

definition extract_image ::
  "platform \<Rightarrow> gltf \<Rightarrow> string \<Rightarrow> nat \<Rightarrow> gltf_image \<Rightarrow> world \<Rightarrow> py_exception + world" where
  "extract_image pf g output_dir i img w =
     (if truthy (uri img) then
        (let u = the (uri img)
         in if startswith u ''data:'' then extract_data_uri pf output_dir i u w
            else Inr (print_line
                       (''Image '' @ str_nat i @ '' references external file: '' @ u) w))
      else
        (case bufferView img of
           Some k \<Rightarrow> extract_buffer_view pf g output_dir i img k w
         | None \<Rightarrow> Inr w))"

text \<open>Lines 27 to 80: the \<open>try\<close> with its \<open>except Exception\<close>.\<close>

definition try_extract_image ::
  "platform \<Rightarrow> gltf \<Rightarrow> string \<Rightarrow> nat \<Rightarrow> gltf_image \<Rightarrow> world \<Rightarrow> world" where
  "try_extract_image pf g output_dir i img w =
     (case extract_image pf g output_dir i img w of
        Inl e \<Rightarrow> print_line (''Error extracting image '' @ str_nat i @ '': '' @ exc_str e) w
      | Inr w' \<Rightarrow> w')"

text \<open>Line 26: the loop over \<open>enumerate(gltf.images)\<close>, from index \<open>i\<close> on.\<close>

fun extract_images ::
  "platform \<Rightarrow> gltf \<Rightarrow> string \<Rightarrow> nat \<Rightarrow> gltf_image list \<Rightarrow> world \<Rightarrow> world" where
  "extract_images pf g output_dir i [] w = w"
| "extract_images pf g output_dir i (img # rest) w =
     extract_images pf g output_dir (Suc i) rest (try_extract_image pf g output_dir i img w)"

text \<open>
  Lines 6 to 82. The result is the exception that ended the run (if any) and the world
  the run left behind.
\<close>

definition extract_textures_from_glb ::
  "platform \<Rightarrow> string \<Rightarrow> string \<Rightarrow> world \<Rightarrow> py_exception option \<times> world" where
  "extract_textures_from_glb pf glb_file output_dir w0 =
     (let w1 = print_line (''Loading GLB file: '' @ glb_file) w0
      in case GLTF2_load pf glb_file of
           Inl x \<Rightarrow> (Some x, w1)
         | Inr g \<Rightarrow>
             (case (if \<not> os_path_exists w1 output_dir then os_makedirs pf output_dir w1
                    else Inr w1) of
                Inl x \<Rightarrow> (Some x, w1)
              | Inr w2 \<Rightarrow>
                  if buffers g = [] then
                    (None, print_line ''No buffers found in the GLB file.'' w2)
                  else if images g = [] then
                    (None, print_line ''No images found in the GLB file.'' w2)
                  else
                    (let w3 = print_line
                                (''Found '' @ str_nat (length (images g))
                                   @ '' images in the GLB file.'') w2;
                         w4 = extract_images pf g output_dir 0 (images g) w3
                     in (None,
                         print_line
                           (CHR 0x0A #
                              ''Texture extraction complete. Check the extracted_textures directory.'')
                           w4))))"

section \<open>update\_mtl\_and\_textures.py\<close>














section \<open>The statements of the specification, in its own words\<close>






section \<open>Example inputs\<close>

text \<open>
  The decoding of canonical, padded base64 text (RFC 4648), the decoder of the platform
  used in the examples; any other text is refused.
\<close>

definition b64_index :: "char \<Rightarrow> nat option" where
  "b64_index c =
     (let n = (of_char c :: nat)
      in if 65 \<le> n \<and> n \<le> 90 then Some (n - 65)
         else if 97 \<le> n \<and> n \<le> 122 then Some (n - 71)
         else if 48 \<le> n \<and> n \<le> 57 then Some (n + 4)
         else if n = 43 then Some 62
         else if n = 47 then Some 63
         else None)"

fun b64_quads :: "string \<Rightarrow> bytes option" where
  "b64_quads [] = Some []"
| "b64_quads (a # b # c # d # rest) =
     (case (b64_index a, b64_index b) of
        (Some x, Some y) \<Rightarrow>
          if c = CHR ''='' \<and> d = CHR ''='' \<and> rest = [] then
            Some [of_nat ((x * 64 + y) div 16)]
          else
            (case b64_index c of
               None \<Rightarrow> None
             | Some z \<Rightarrow>
                 if d = CHR ''='' \<and> rest = [] then
                   Some [of_nat ((x * 4096 + y * 64 + z) div 1024),
                         of_nat ((x * 4096 + y * 64 + z) div 4 mod 256)]
                 else
                   (case (b64_index d, b64_quads rest) of
                      (Some t, Some bs) \<Rightarrow>
                        (let n = x * 262144 + y * 4096 + z * 64 + t
                         in Some (of_nat (n div 65536) # of_nat (n div 256 mod 256)
                                    # of_nat (n mod 256) # bs))
                    | _ \<Rightarrow> None))
      | _ \<Rightarrow> None)"
| "b64_quads _ = None"

definition b64decode_canonical :: "string \<Rightarrow> py_exception + bytes" where
  "b64decode_canonical s =
     (case b64_quads s of
        Some bs \<Rightarrow> Inr bs
      | None \<Rightarrow> Inl (PyException ''binascii.Error'' ''Incorrect padding''))"

text \<open>A platform on which nothing is refused, and a world with nothing in it.\<close>

definition no_buffer_uri_data :: "string \<Rightarrow> py_exception + bytes option" where
  "no_buffer_uri_data u = Inr None"

definition no_refusal :: "string \<Rightarrow> py_exception option" where
  "no_refusal p = None"

definition empty_world :: world where
  "empty_world = \<lparr>dirs = {}, files = Map.empty, console = []\<rparr>"

text \<open>A world in which the directory \<open>out\<close> exists and is empty.\<close>

definition out_world :: world where
  "out_world = \<lparr>dirs = {''out''}, files = Map.empty, console = []\<rparr>"

definition load_as :: "gltf \<Rightarrow> string \<Rightarrow> py_exception + gltf" where
  "load_as g glb_file = Inr g"

definition ok_platform :: "gltf \<Rightarrow> platform" where
  "ok_platform g =
     \<lparr>GLTF2_load = load_as g, b64decode = b64decode_canonical,
      makedirs_error = no_refusal, open_error = no_refusal\<rparr>"

text \<open>
  A container with one embedded buffer of 200 bytes (byte \<open>n\<close> has the value \<open>n\<close>) and
  one JPEG image in the bytes 100 to 149.
\<close>

definition embedded_buffer :: gltf_buffer where
  "embedded_buffer = \<lparr>buffer_uri = None\<rparr>"







text \<open>
  A container whose only buffer view (offset 2, length 5) runs over the end of its
  buffer of 4 bytes, with a PNG image on that view and a second image in a data URI.
\<close>

definition short_view :: gltf_buffer_view where
  "short_view = \<lparr>buffer = Some 0, byteOffset = Attr (Some 2), byteLength = Some 5\<rparr>"


definition data_uri_image :: gltf_image where
  "data_uri_image =
     \<lparr>uri = Some ''data:image/png;base64,aGk='', bufferView = None, mimeType = None\<rparr>"


text \<open>A container whose first image names a buffer view that does not exist.\<close>

definition dangling_image :: gltf_image where
  "dangling_image = \<lparr>uri = None, bufferView = Some 7, mimeType = None\<rparr>"

definition dangling_container :: gltf where
  "dangling_container =
     \<lparr>buffers = [embedded_buffer], bufferViews = [short_view],
      images = [dangling_image, data_uri_image],
      binary_blob = Some [1, 2, 3, 4],
      get_data_from_buffer_uri = no_buffer_uri_data\<rparr>"

text \<open>A container with a buffer and no image.\<close>

definition imageless_container :: gltf where
  "imageless_container =
     \<lparr>buffers = [embedded_buffer], bufferViews = [], images = [],
      binary_blob = Some [1, 2, 3, 4],
      get_data_from_buffer_uri = no_buffer_uri_data\<rparr>"


section \<open>Auxiliary facts\<close>

subsection \<open>Strings, slices and the loop\<close>












lemma extract_images_append:
  "extract_images pf g output_dir i (xs @ ys) w =
   extract_images pf g output_dir (i + length xs) ys (extract_images pf g output_dir i xs w)"
  by (induction xs arbitrary: i w) auto

lemma print_line_simps [simp]:
  "files (print_line s w) = files w"
  "dirs (print_line s w) = dirs w"
  "console (print_line s w) = console w @ [s]"
  by (simp_all add: print_line_def)

lemma os_path_exists_print_line [simp]:
  "os_path_exists (print_line s w) p = os_path_exists w p"
  by (simp add: os_path_exists_def)






lemma str_nat_digits:
  "str_nat 0 = ''0''" "str_nat 1 = ''1''" "str_nat (Suc 0) = ''1''" "str_nat 2 = ''2''"
  "str_nat 3 = ''3''"
  by code_simp+



lemma data_uri_example:
  "extract_image (ok_platform g) g ''out'' (Suc 0) data_uri_image w =
     Inr (print_line ''Extracted texture_1.png from data URI''
           (w\<lparr>files := (files w)(''out/texture_1.png'' \<mapsto> [104, 105])\<rparr>))"
  by (simp add: extract_image_def data_uri_image_def truthy_def startswith_def
        extract_data_uri_def ok_platform_def b64decode_canonical_def b64_index_def
        texture_filename_def str_nat_digits os_path_join_def endswith_def write_binary_def
        no_refusal_def)

subsection \<open>The run as a whole\<close>






subsection \<open>The material file\<close>










section \<open>The texture extractor\<close>









text \<open>
  Claim C4. When the body of the loop raises an exception for the image at position
  \<open>i\<close> (the images before it having been processed), the exception is caught: one line
  with the position and the text of the exception is printed, nothing else changes, and
  the loop goes on with the image at position \<open>i + 1\<close>. Once the container is loaded and
  the output directory is there, the run ends without an exception whatever its images.
\<close>

theorem exception_caught_per_image:
  assumes "w\<^sub>i = extract_images pf g output_dir 0 before w"
    and "extract_image pf g output_dir (length before) img w\<^sub>i = Inl e"
  shows "extract_images pf g output_dir 0 (before @ img # after) w =
           extract_images pf g output_dir (Suc (length before)) after
             (print_line
                (''Error extracting image '' @ str_nat (length before) @ '': '' @ exc_str e) w\<^sub>i)
         \<and> (GLTF2_load pf glb_file = Inr g
               \<and> (os_path_exists w output_dir \<or> makedirs_error pf output_dir = None)
             \<longrightarrow> fst (extract_textures_from_glb pf glb_file output_dir w) = None)"
  using assms
  by (auto simp: extract_images_append try_extract_image_def extract_textures_from_glb_def
        os_makedirs_def Let_def)

text \<open>
  Claim C4, an example: the first image names buffer view 7 of a container with one
  buffer view; the IndexError is reported for image 0 and image 1 is extracted.
\<close>

theorem exception_caught_per_image_witness:
  "extract_images (ok_platform dangling_container) dangling_container ''out'' 0
     [dangling_image, data_uri_image] out_world =
   \<lparr>dirs = {''out''},
    files = [''out/texture_1.png'' \<mapsto> [104, 105]],
    console = [''Error extracting image 0: list index out of range'',
               ''Extracted texture_1.png from data URI'']\<rparr>
   \<and> fst (extract_textures_from_glb (ok_platform dangling_container) ''scene.glb'' ''out''
             out_world) = None"
proof -
  have h1: "out_world = extract_images (ok_platform dangling_container) dangling_container
              ''out'' 0 [] out_world"
    by simp
  have h2: "extract_image (ok_platform dangling_container) dangling_container ''out''
              (length ([] :: gltf_image list)) dangling_image out_world = Inl IndexError"
    by (simp add: extract_image_def dangling_image_def truthy_def extract_buffer_view_def
          list_getitem_def dangling_container_def)
  have load: "GLTF2_load (ok_platform dangling_container) ''scene.glb'' = Inr dangling_container"
    by (simp add: ok_platform_def load_as_def)
  have dir: "os_path_exists out_world ''out''"
    by (simp add: os_path_exists_def out_world_def)
  from exception_caught_per_image [OF h1 h2, of "[data_uri_image]" "''scene.glb''"] load dir
  show ?thesis
    by (simp add: try_extract_image_def data_uri_example print_line_def out_world_def
          IndexError_def str_nat_digits)
qed

text \<open>
  Claim C5. When the loaded container has no buffers, or has buffers and no images, the
  run prints that there are no buffers (or no images), ends without an exception, and
  leaves the files as they were. The output directory has to exist or to be creatable.
\<close>

theorem no_buffers_or_no_images:
  assumes "GLTF2_load pf glb_file = Inr g"
    and "os_path_exists w output_dir \<or> makedirs_error pf output_dir = None"
    and "buffers g = [] \<or> images g = []"
  shows "fst (extract_textures_from_glb pf glb_file output_dir w) = None
         \<and> files (snd (extract_textures_from_glb pf glb_file output_dir w)) = files w
         \<and> console (snd (extract_textures_from_glb pf glb_file output_dir w)) =
             console w @
               [''Loading GLB file: '' @ glb_file,
                if buffers g = [] then ''No buffers found in the GLB file.''
                else ''No images found in the GLB file.'']"
  using assms
  by (auto simp: extract_textures_from_glb_def os_makedirs_def Let_def)

text \<open>
  Claim C5, an example: a container with a buffer and no image, run in an empty world.
\<close>

theorem no_buffers_or_no_images_witness:
  "fst (extract_textures_from_glb (ok_platform imageless_container) ''scene.glb'' ''out''
          empty_world) = None
   \<and> files (snd (extract_textures_from_glb (ok_platform imageless_container) ''scene.glb''
                   ''out'' empty_world)) = files empty_world
   \<and> console (snd (extract_textures_from_glb (ok_platform imageless_container) ''scene.glb''
                     ''out'' empty_world)) =
       [''Loading GLB file: scene.glb'', ''No images found in the GLB file.'']"
proof -
  have h1: "GLTF2_load (ok_platform imageless_container) ''scene.glb'' = Inr imageless_container"
    by (simp add: ok_platform_def load_as_def)
  have h2: "os_path_exists empty_world ''out''
            \<or> makedirs_error (ok_platform imageless_container) ''out'' = None"
    by (simp add: ok_platform_def no_refusal_def)
  have h3: "buffers imageless_container = [] \<or> images imageless_container = []"
    by (simp add: imageless_container_def)
  have b: "buffers imageless_container \<noteq> []" by (simp add: imageless_container_def)
  from no_buffers_or_no_images [OF h1 h2 h3] b show ?thesis
    by (simp add: empty_world_def)
qed









section \<open>The material and texture renamer\<close>




end
